theory Spec2Isabelle
  imports Complex_Main "HOL-Library.Word"
begin

unbundle bit_operations_syntax

section \<open>Values, buffers and errors\<close>

text \<open>
  A Node \<open>Buffer\<close> is a list of bytes. JavaScript values that reach the codec
  untyped (the decoder's \<open>input\<close>, the encoder's \<open>uid\<close>, \<open>scanCount\<close> and
  \<open>fileData\<close>, a profile name) are values of \<open>jsval\<close>. A finite number is the
  rational it denotes (every finite double is one, and \<open>-0\<close> compares and
  converts as \<open>0\<close>); \<open>NaN\<close> and the two infinities are separate values.
\<close>

type_synonym byte = "8 word"
type_synonym buffer = "byte list"

datatype jsval =
    JUndefined
  | JNull
  | JBool bool
  | JNum rat
  | JNaN
  | JInfinity bool
  | JStr string
  | JBuf buffer
  | JObj "(string \<times> jsval) list"

text \<open>Truthiness, as \<open>!x\<close>, \<open>x ? a : b\<close> and \<open>x || y\<close> read it.\<close>

fun truthy :: "jsval \<Rightarrow> bool" where
  "truthy JUndefined = False"
| "truthy JNull = False"
| "truthy (JBool b) = b"
| "truthy (JNum q) = (q \<noteq> 0)"
| "truthy JNaN = False"
| "truthy (JInfinity _) = True"
| "truthy (JStr s) = (s \<noteq> [])"
| "truthy (JBuf _) = True"
| "truthy (JObj _) = True"

text \<open>\<open>a || b\<close> on values.\<close>

definition js_or :: "jsval \<Rightarrow> jsval \<Rightarrow> jsval" where
  "js_or a b = (if truthy a then a else b)"

text \<open>
  \<open>data.picc\<close>: an own property of an object literal; every other value the
  model holds has no such property and reads \<open>undefined\<close>.
\<close>

fun get_prop :: "jsval \<Rightarrow> string \<Rightarrow> jsval" where
  "get_prop (JObj fs) k = (case map_of fs k of Some v \<Rightarrow> v | None \<Rightarrow> JUndefined)"
| "get_prop _ k = JUndefined"

text \<open>
  The error classes of \<open>error-types.js\<close>, and the built-in ones the code can
  meet. An exception is a value \<open>JSError cls msg\<close>; a function that can throw
  returns \<open>jserror + 'a\<close>.
\<close>

datatype error_class =
    Error
  | TypeError
  | ValidationError
  | DecryptionError
  | EncryptionError
  | SDMProfileError
  | SecurityError

datatype jserror = JSError (eclass: error_class) (emessage: string)

definition bind_err :: "jserror + 'a \<Rightarrow> ('a \<Rightarrow> jserror + 'b) \<Rightarrow> jserror + 'b" where
  "bind_err m f = (case m of Inl e \<Rightarrow> Inl e | Inr x \<Rightarrow> f x)"

text \<open>\<open>try { m } catch (error) { throw h(error) }\<close>.\<close>

definition catch_err :: "jserror + 'a \<Rightarrow> (jserror \<Rightarrow> jserror) \<Rightarrow> jserror + 'a" where
  "catch_err m h = (case m of Inl e \<Rightarrow> Inl (h e) | Inr x \<Rightarrow> Inr x)"

text \<open>\<open>throw new Cls(`prefix${error.message}`)\<close>.\<close>

definition rethrow :: "error_class \<Rightarrow> string \<Rightarrow> jserror \<Rightarrow> jserror" where
  "rethrow cls prefix e = JSError cls (prefix @ emessage e)"

text \<open>
  The catch clause of the library modules (\<open>aes.js\<close>, \<open>cmac.js\<close>,
  \<open>key-derivation.js\<close>): a \<open>ValidationError\<close> passes, anything else is wrapped.
\<close>

definition keep_validation :: "error_class \<Rightarrow> string \<Rightarrow> jserror \<Rightarrow> jserror" where
  "keep_validation cls prefix e =
     (if eclass e = ValidationError then e else rethrow cls prefix e)"

section \<open>Hexadecimal strings\<close>

definition hexval :: "char \<Rightarrow> nat option" where
  "hexval c =
     map_of (zip ''0123456789ABCDEFabcdef''
                 [0, 1, 2, 3, 4, 5, 6, 7, 8, 9, 10, 11, 12, 13, 14, 15, 10, 11, 12, 13, 14, 15]) c"

text \<open>The test \<open>/^[0-9A-Fa-f]+$/.test(s)\<close>.\<close>

definition is_hex_string :: "string \<Rightarrow> bool" where
  "is_hex_string s = (s \<noteq> [] \<and> list_all (\<lambda>c. hexval c \<noteq> None) s)"

text \<open>
  \<open>Buffer.from(s, 'hex')\<close>: two digits a byte, stopping at the first pair that
  is not two hexadecimal digits; a last single character is dropped.
\<close>

fun fromHex :: "string \<Rightarrow> buffer" where
  "fromHex (a # b # rest) =
     (case (hexval a, hexval b) of
        (Some x, Some y) \<Rightarrow> word_of_nat (16 * x + y) # fromHex rest
      | _ \<Rightarrow> [])"
| "fromHex _ = []"

definition hexdigit :: "nat \<Rightarrow> char" where
  "hexdigit n = ''0123456789abcdef'' ! (n mod 16)"

text \<open>\<open>buf.toString('hex')\<close>.\<close>

definition toHex :: "buffer \<Rightarrow> string" where
  "toHex b = concat (map (\<lambda>w. [hexdigit (unat w div 16), hexdigit (unat w mod 16)]) b)"

text \<open>\<open>s.toUpperCase()\<close>, on the ASCII strings the codec applies it to.\<close>

definition upper_char :: "char \<Rightarrow> char" where
  "upper_char c =
     (case map_of (zip ''abcdefghijklmnopqrstuvwxyz'' ''ABCDEFGHIJKLMNOPQRSTUVWXYZ'') c of
        Some u \<Rightarrow> u
      | None \<Rightarrow> c)"

definition toUpperCase :: "string \<Rightarrow> string" where
  "toUpperCase s = map upper_char s"

text \<open>\<open>buf.toString('hex').toUpperCase()\<close>.\<close>

definition hexU :: "buffer \<Rightarrow> string" where
  "hexU b = toUpperCase (toHex b)"

text \<open>\<open>Buffer.from(s, 'utf8')\<close> for the ASCII literals of the source.\<close>

definition ascii_bytes :: "string \<Rightarrow> buffer" where
  "ascii_bytes s = map (\<lambda>c. word_of_nat (of_char c)) s"

section \<open>Library primitives\<close>

text \<open>
  The block cipher, the MAC, the hashes and the URL tokenizer are not code of the
  repository (Node's \<open>crypto\<close>, \<open>node-aes-cmac\<close>, \<open>URL\<close>): the codec is
  modelled over a record of them. \<open>aes_block_encrypt P key block\<close> is AES-128 on
  one 16-byte block.
\<close>

record prims =
  aes_block_encrypt :: "buffer \<Rightarrow> buffer \<Rightarrow> buffer"
  aes_block_decrypt :: "buffer \<Rightarrow> buffer \<Rightarrow> buffer"
  aesCmac :: "buffer \<Rightarrow> buffer \<Rightarrow> buffer"
  hkdfSync :: "buffer \<Rightarrow> buffer \<Rightarrow> buffer \<Rightarrow> nat \<Rightarrow> buffer"
  pbkdf2Sync :: "buffer \<Rightarrow> buffer \<Rightarrow> nat \<Rightarrow> nat \<Rightarrow> buffer"
  sha256 :: "buffer \<Rightarrow> buffer"
  utf8_encode :: "string \<Rightarrow> buffer"
  utf8_decode :: "buffer \<Rightarrow> string"
  url_search_params :: "string \<Rightarrow> (string \<times> string) list option"
  query_params :: "string \<Rightarrow> (string \<times> string) list"

text \<open>
  What the codec needs of them: decryption inverts encryption on 16-byte blocks
  under a 16-byte key, the MAC is 16 bytes, the key-derivation functions return
  the length asked for, SHA-256 returns 32 bytes.
\<close>

definition prims_ok :: "prims \<Rightarrow> bool" where
  "prims_ok P =
     ((\<forall>k b. length k = 16 \<and> length b = 16 \<longrightarrow>
          length (aes_block_encrypt P k b) = 16 \<and>
          aes_block_decrypt P k (aes_block_encrypt P k b) = b) \<and>
      (\<forall>k d. length (aesCmac P k d) = 16) \<and>
      (\<forall>k s i n. length (hkdfSync P k s i n) = n) \<and>
      (\<forall>k s i n. length (pbkdf2Sync P k s i n) = n) \<and>
      (\<forall>d. length (sha256 P d) = 32))"

subsection \<open>CBC with PKCS#7 padding\<close>

text \<open>
  \<open>crypto.createCipheriv('aes-128-cbc', key, iv)\<close> with \<open>setAutoPadding(true)\<close>:
  the data is padded to whole blocks (a full block of padding when it already is),
  each block is XORed with the previous ciphertext block and encrypted.
  \<open>decipher.final()\<close> throws when the last block is not a valid padding.
\<close>

definition xor_bytes :: "buffer \<Rightarrow> buffer \<Rightarrow> buffer" where
  "xor_bytes a b = map2 (XOR) a b"

definition pkcs7_pad :: "buffer \<Rightarrow> buffer" where
  "pkcs7_pad d = (let n = 16 - length d mod 16 in d @ replicate n (word_of_nat n))"

definition pkcs7_unpad :: "buffer \<Rightarrow> buffer option" where
  "pkcs7_unpad d =
     (if d = [] then None
      else let n = unat (last d) in
        if n = 0 \<or> 16 < n \<or> length d < n then None
        else if drop (length d - n) d = replicate n (last d)
        then Some (take (length d - n) d) else None)"

fun cbc_enc :: "(buffer \<Rightarrow> buffer) \<Rightarrow> buffer \<Rightarrow> buffer \<Rightarrow> buffer" where
  "cbc_enc E prev d =
     (if d = [] then []
      else let c = E (xor_bytes (take 16 d) prev) in c @ cbc_enc E c (drop 16 d))"

fun cbc_dec :: "(buffer \<Rightarrow> buffer) \<Rightarrow> buffer \<Rightarrow> buffer \<Rightarrow> buffer" where
  "cbc_dec D prev d =
     (if d = [] then []
      else let c = take 16 d in xor_bytes (D c) prev @ cbc_dec D c (drop 16 d))"

definition zero_iv :: buffer where
  "zero_iv = replicate 16 0"

section \<open>\<open>aes.js\<close>, \<open>cmac.js\<close> and \<open>secure-memory.js\<close>\<close>

text \<open>
  \<open>AES.cbcEncrypt(key, data)\<close> and \<open>AES.cbcDecrypt(key, data)\<close>, always called
  without an IV (the zero IV). The arguments are Buffers at every call site.
\<close>

definition AES_cbcEncrypt :: "prims \<Rightarrow> buffer \<Rightarrow> buffer \<Rightarrow> jserror + buffer" where
  "AES_cbcEncrypt P key d =
     (if length key \<noteq> 16 then Inl (JSError ValidationError ''Key must be a 16-byte Buffer'')
      else Inr (cbc_enc (aes_block_encrypt P key) zero_iv (pkcs7_pad d)))"

definition AES_cbcDecrypt :: "prims \<Rightarrow> buffer \<Rightarrow> buffer \<Rightarrow> jserror + buffer" where
  "AES_cbcDecrypt P key d =
     (if length key \<noteq> 16 then Inl (JSError ValidationError ''Key must be a 16-byte Buffer'')
      else if length d = 0 then Inl (JSError ValidationError ''Data cannot be empty'')
      else if length d mod 16 \<noteq> 0
      then Inl (JSError ValidationError ''Data length must be multiple of 16 bytes'')
      else case pkcs7_unpad (cbc_dec (aes_block_decrypt P key) zero_iv d) of
             None \<Rightarrow> Inl (JSError SecurityError ''AES CBC decryption failed: bad decrypt'')
           | Some p \<Rightarrow> Inr p)"

text \<open>\<open>CMAC.calculate(key, data)\<close>.\<close>

definition CMAC_calculate :: "prims \<Rightarrow> buffer \<Rightarrow> buffer \<Rightarrow> jserror + buffer" where
  "CMAC_calculate P key d =
     (if length key \<noteq> 16 then Inl (JSError ValidationError ''Key must be a 16-byte Buffer'')
      else Inr (aesCmac P key d))"

text \<open>
  \<open>MemoryManager.timingSafeEqual(a, b)\<close>: both buffers are zero-padded to the
  longer length and compared.
\<close>

definition timingSafeEqual :: "buffer \<Rightarrow> buffer \<Rightarrow> bool" where
  "timingSafeEqual a b =
     (let n = max (length a) (length b) in
      a @ replicate (n - length a) 0 = b @ replicate (n - length b) 0)"

text \<open>
  \<open>CMAC.verify(key, data, expectedMac)\<close>: the computed MAC is cut to the length of
  the expected one; a length mismatch, or any failure, is \<open>false\<close>.
\<close>

definition CMAC_verify :: "prims \<Rightarrow> buffer \<Rightarrow> buffer \<Rightarrow> buffer \<Rightarrow> bool" where
  "CMAC_verify P key d expectedMac =
     (if length key \<noteq> 16 then False
      else case CMAC_calculate P key d of
             Inl e \<Rightarrow> False
           | Inr calculatedMac \<Rightarrow>
               (let truncatedMac = take (length expectedMac) calculatedMac in
                if length truncatedMac \<noteq> length expectedMac then False
                else timingSafeEqual truncatedMac expectedMac))"

section \<open>\<open>key-derivation.js\<close>\<close>

record session_keys =
  encKey :: buffer
  macKey :: buffer
  derivationMethod :: string

text \<open>\<open>source.copy(target, targetStart)\<close>: as many bytes as fit.\<close>

definition buf_copy :: "buffer \<Rightarrow> buffer \<Rightarrow> nat \<Rightarrow> buffer" where
  "buf_copy src target targetStart =
     (if length target \<le> targetStart then target
      else take (length target) (take targetStart target @ src @ drop (targetStart + length src) target))"

text \<open>
  \<open>buildSV1\<close> and \<open>buildSV2\<close> with the default options (\<open>svLength = 32\<close>): the
  label, then the UID, then the counter, in a zero-filled 32-byte vector.
\<close>

definition buildSV :: "string \<Rightarrow> buffer \<Rightarrow> buffer \<Rightarrow> buffer" where
  "buildSV label uid readCounter =
     (let svLength = 32;
          sv = replicate svLength 0;
          labelBuffer = fromHex label;
          sv = buf_copy labelBuffer sv 0;
          offset = length labelBuffer;
          copyLength = min (length uid) (svLength - offset);
          sv = (if 0 < length uid then buf_copy (take copyLength uid) sv offset else sv);
          offset = (if 0 < length uid then offset + copyLength else offset);
          copyLength = min (length readCounter) (svLength - offset)
      in if 0 < length readCounter then buf_copy (take copyLength readCounter) sv offset else sv)"

definition buildSV1 :: "buffer \<Rightarrow> buffer \<Rightarrow> buffer" where
  "buildSV1 uid readCounter = buildSV ''3CC300010080'' uid readCounter"

definition buildSV2 :: "buffer \<Rightarrow> buffer \<Rightarrow> buffer" where
  "buildSV2 uid readCounter = buildSV ''3CC300010081'' uid readCounter"

text \<open>The four derivation functions, called with no options (the defaults).\<close>

definition ntag424Official :: "prims \<Rightarrow> buffer \<Rightarrow> buffer \<Rightarrow> buffer \<Rightarrow> jserror + session_keys" where
  "ntag424Official P masterKey uid readCounter =
     (if length masterKey \<noteq> 16
      then Inl (JSError ValidationError ''Master key must be a 16-byte Buffer'')
      else let keyLength = 16;
               sv1 = buildSV1 uid readCounter;
               sv2 = buildSV2 uid readCounter;
               cmac1 = aesCmac P masterKey sv1;
               cmac2 = aesCmac P masterKey sv2
           in Inr \<lparr>encKey = take keyLength cmac1, macKey = take keyLength cmac2,
                   derivationMethod = ''ntag424-official''\<rparr>)"

definition hkdf :: "prims \<Rightarrow> buffer \<Rightarrow> buffer \<Rightarrow> buffer \<Rightarrow> jserror + session_keys" where
  "hkdf P masterKey uid readCounter =
     (let keyLength = 32;
          inputSalt = uid @ readCounter;
          infoBuffer = ascii_bytes ''NTAG424-SESSION-KEYS'';
          derivedKeys = hkdfSync P masterKey inputSalt infoBuffer keyLength
      in Inr \<lparr>encKey = take (keyLength div 2) derivedKeys,
              macKey = drop (keyLength div 2) derivedKeys,
              derivationMethod = ''hkdf''\<rparr>)"

definition pbkdf2 :: "prims \<Rightarrow> buffer \<Rightarrow> buffer \<Rightarrow> buffer \<Rightarrow> jserror + session_keys" where
  "pbkdf2 P masterKey uid readCounter =
     (let iterations = 10000;
          keyLength = 32;
          salt = ascii_bytes ''NTAG424'' @ uid @ readCounter;
          derivedKeys = pbkdf2Sync P masterKey salt iterations keyLength
      in Inr \<lparr>encKey = take (keyLength div 2) derivedKeys,
              macKey = drop (keyLength div 2) derivedKeys,
              derivationMethod = ''pbkdf2''\<rparr>)"

definition simpleHash :: "prims \<Rightarrow> buffer \<Rightarrow> buffer \<Rightarrow> buffer \<Rightarrow> jserror + session_keys" where
  "simpleHash P masterKey uid readCounter =
     (let keyLength = 16;
          encSeed = masterKey @ uid @ readCounter @ ascii_bytes ''ENC'';
          macSeed = masterKey @ uid @ readCounter @ ascii_bytes ''MAC'';
          encHash = sha256 P encSeed;
          macHash = sha256 P macSeed
      in Inr \<lparr>encKey = take keyLength encHash, macKey = take keyLength macHash,
              derivationMethod = ''simple-hash''\<rparr>)"

text \<open>
  \<open>derivationMethods[method]\<close> is a lookup in an object literal, so a key that the
  literal inherits from \<open>Object.prototype\<close> is found too. What is found there is
  not a derivation function: calling it, or reading \<open>encKey\<close> off what it
  returns, ends in a \<open>TypeError\<close> (the message is the engine's).
\<close>

definition object_prototype_keys :: "string list" where
  "object_prototype_keys =
     [''constructor'', ''__defineGetter__'', ''__defineSetter__'', ''hasOwnProperty'',
      ''__lookupGetter__'', ''__lookupSetter__'', ''isPrototypeOf'', ''propertyIsEnumerable'',
      ''toString'', ''valueOf'', ''__proto__'', ''toLocaleString'']"

definition derivationMethods ::
  "string \<Rightarrow> (prims \<Rightarrow> buffer \<Rightarrow> buffer \<Rightarrow> buffer \<Rightarrow> jserror + session_keys) option" where
  "derivationMethods m =
     (if m = ''ntag424Official'' then Some ntag424Official
      else if m = ''hkdf'' then Some hkdf
      else if m = ''pbkdf2'' then Some pbkdf2
      else if m = ''simpleHash'' then Some simpleHash
      else None)"

text \<open>
  \<open>_deriveKeys(masterKey, uid, counter, method)\<close> of the encoders and decoders;
  \<open>cls\<close> is the class of the "unknown method" error, which is the one thing the
  copies differ in.
\<close>

definition deriveKeys ::
  "error_class \<Rightarrow> prims \<Rightarrow> buffer \<Rightarrow> buffer \<Rightarrow> buffer \<Rightarrow> string \<Rightarrow> jserror + session_keys" where
  "deriveKeys cls P masterKey uid counter m =
     (case derivationMethods m of
        Some derivationFunction \<Rightarrow> derivationFunction P masterKey uid counter
      | None \<Rightarrow>
          if m \<in> set object_prototype_keys
          then Inl (JSError TypeError ''derivationFunction is not a key derivation function'')
          else Inl (JSError cls (''Unknown key derivation method: '' @ m)))"

definition zeroUID :: buffer where
  "zeroUID = replicate 7 0"

definition zeroCounter :: buffer where
  "zeroCounter = replicate 3 0"

section \<open>\<open>sdm-config.js\<close>\<close>

text \<open>
  A profile object. A layout field the object does not have is \<open>None\<close>
  (\<open>undefined\<close>); the stored numbers are non-negative integers. \<open>description\<close>
  is never read by the codec and is left out.
\<close>

record sdm_profile =
  name :: "string option"
  includeUID :: bool
  includeCounter :: bool
  includeFileData :: bool
  piccDataLength :: "nat option"
  uidOffset :: "nat option"
  uidLength :: "nat option"
  counterOffset :: "nat option"
  counterLength :: "nat option"
  encFileDataLength :: "nat option"

definition profile_uidOnly :: sdm_profile where
  "profile_uidOnly =
     \<lparr>name = Some ''uidOnly'', includeUID = True, includeCounter = False,
      includeFileData = False, piccDataLength = Some 16, uidOffset = Some 1,
      uidLength = Some 7, counterOffset = None, counterLength = None,
      encFileDataLength = None\<rparr>"

definition profile_counterOnly :: sdm_profile where
  "profile_counterOnly =
     \<lparr>name = Some ''counterOnly'', includeUID = False, includeCounter = True,
      includeFileData = False, piccDataLength = Some 16, uidOffset = None,
      uidLength = None, counterOffset = Some 1, counterLength = Some 3,
      encFileDataLength = None\<rparr>"

definition profile_uidCounter :: sdm_profile where
  "profile_uidCounter =
     \<lparr>name = Some ''uidCounter'', includeUID = True, includeCounter = True,
      includeFileData = False, piccDataLength = Some 16, uidOffset = Some 1,
      uidLength = Some 7, counterOffset = Some 8, counterLength = Some 3,
      encFileDataLength = None\<rparr>"

definition profile_full :: sdm_profile where
  "profile_full =
     \<lparr>name = Some ''full'', includeUID = True, includeCounter = True,
      includeFileData = True, piccDataLength = Some 16, uidOffset = Some 1,
      uidLength = Some 7, counterOffset = Some 8, counterLength = Some 3,
      encFileDataLength = Some 16\<rparr>"

text \<open>The own properties of \<open>SDMConfig.profiles\<close>.\<close>

definition profiles :: "string \<Rightarrow> sdm_profile option" where
  "profiles k =
     (if k = ''uidOnly'' then Some profile_uidOnly
      else if k = ''counterOnly'' then Some profile_counterOnly
      else if k = ''uidCounter'' then Some profile_uidCounter
      else if k = ''full'' then Some profile_full
      else None)"

definition getAvailableProfiles :: "string list" where
  "getAvailableProfiles = [''uidOnly'', ''counterOnly'', ''uidCounter'', ''full'']"

text \<open>
  \<open>this.profiles[profileName]\<close> also finds what the literal inherits from
  \<open>Object.prototype\<close>. Read as a profile, such a function or object has none of
  the profile's fields; a function has its own \<open>name\<close>.
\<close>

definition inherited_profile :: "string \<Rightarrow> sdm_profile" where
  "inherited_profile k =
     \<lparr>name = (if k = ''__proto__'' then None
              else if k = ''constructor'' then Some ''Object'' else Some k),
      includeUID = False, includeCounter = False, includeFileData = False,
      piccDataLength = None, uidOffset = None, uidLength = None,
      counterOffset = None, counterLength = None, encFileDataLength = None\<rparr>"

fun typeof :: "jsval \<Rightarrow> string" where
  "typeof JUndefined = ''undefined''"
| "typeof JNull = ''object''"
| "typeof (JBool _) = ''boolean''"
| "typeof (JNum _) = ''number''"
| "typeof JNaN = ''number''"
| "typeof (JInfinity _) = ''number''"
| "typeof (JStr _) = ''string''"
| "typeof (JBuf _) = ''object''"
| "typeof (JObj _) = ''object''"

fun the_str :: "jsval \<Rightarrow> string" where
  "the_str (JStr s) = s"
| "the_str _ = []"

text \<open>\<open>SDMConfig.getProfile(profileName)\<close>.\<close>

definition getProfile :: "jsval \<Rightarrow> jserror + sdm_profile" where
  "getProfile profileName =
     (if \<not> truthy profileName \<or> typeof profileName \<noteq> ''string''
      then Inr profile_uidCounter
      else case profiles (the_str profileName) of
             Some profile \<Rightarrow> Inr profile
           | None \<Rightarrow>
               if the_str profileName \<in> set object_prototype_keys
               then Inr (inherited_profile (the_str profileName))
               else Inl (JSError SDMProfileError
                           (''Unknown SDM profile: '' @ the_str profileName)))"

text \<open>
  The \<open>sdmProfile\<close> option: absent, \<open>null\<close>, a profile name or a profile
  object; and \<open>typeof sdmProfile === 'string' ? SDMConfig.getProfile(sdmProfile) :
  sdmProfile\<close>, where \<open>None\<close> is \<open>null\<close> or \<open>undefined\<close>.
\<close>

datatype profile_arg = PUndefined | PNull | PName string | PObj sdm_profile

definition resolve_profile :: "profile_arg \<Rightarrow> jserror + sdm_profile option" where
  "resolve_profile a =
     (case a of
        PName s \<Rightarrow> bind_err (getProfile (JStr s)) (\<lambda>p. Inr (Some p))
      | PObj p \<Rightarrow> Inr (Some p)
      | _ \<Rightarrow> Inr None)"

fun join :: "string \<Rightarrow> string list \<Rightarrow> string" where
  "join sep [] = []"
| "join sep [x] = x"
| "join sep (x # y # ys) = x @ sep @ join sep (y # ys)"

definition quoted_name :: "sdm_profile \<Rightarrow> string" where
  "quoted_name p =
     [CHR 0x27] @ (case name p of Some n \<Rightarrow> n | None \<Rightarrow> ''undefined'') @ [CHR 0x27]"

text \<open>
  \<open>SDMConfig.validateOperationWithProfile(operation, profile, data)\<close>, called with
  a profile that is already resolved.
\<close>

definition validateOperationWithProfile ::
  "string \<Rightarrow> sdm_profile option \<Rightarrow> jsval \<Rightarrow> jserror + bool" where
  "validateOperationWithProfile operation profile d =
     (case profile of
        None \<Rightarrow> Inl (JSError SDMProfileError ''Invalid SDM profile'')
      | Some p \<Rightarrow>
          (let errors =
                 (if operation = ''encrypt'' then
                    (if get_prop d ''fileData'' \<noteq> JNull \<and> get_prop d ''fileData'' \<noteq> JUndefined
                        \<and> \<not> includeFileData p
                     then [''Profile '' @ quoted_name p @
                           '' does not support file data encryption. Use 'full' profile instead.'']
                     else []) @
                    (if \<not> truthy (get_prop d ''uid'') \<and> includeUID p
                     then [''Profile '' @ quoted_name p @ '' requires UID but none provided'']
                     else []) @
                    (if (get_prop d ''counter'' = JNull \<or> get_prop d ''counter'' = JUndefined)
                        \<and> includeCounter p
                     then [''Profile '' @ quoted_name p @ '' requires counter but none provided'']
                     else [])
                  else []) @
                 (if operation = ''decrypt'' then
                    (if truthy (get_prop d ''enc'') \<and> \<not> includeFileData p
                     then [''Profile '' @ quoted_name p @
                           '' does not support encrypted file data. Use 'full' profile instead.'']
                     else []) @
                    (if \<not> truthy (get_prop d ''picc'')
                     then [''PICC data is required for decryption''] else []) @
                    (if \<not> truthy (get_prop d ''cmac'')
                     then [''CMAC data is required for decryption''] else [])
                  else [])
           in if 0 < length errors
              then Inl (JSError SDMProfileError
                          (''SDM profile validation failed: '' @ join '', '' errors))
              else Inr True))"

text \<open>
  \<open>SDMConfig.validateProfile(profile)\<close> on a profile object: \<open>isValid\<close> is that
  the list of errors is empty. A sum with an absent field is \<open>NaN\<close>, which no
  comparison holds of.
\<close>

definition opt_add :: "nat option \<Rightarrow> nat option \<Rightarrow> nat option" where
  "opt_add a b = (case (a, b) of (Some x, Some y) \<Rightarrow> Some (x + y) | _ \<Rightarrow> None)"

definition opt_gt :: "nat option \<Rightarrow> nat option \<Rightarrow> bool" where
  "opt_gt a b = (case (a, b) of (Some x, Some y) \<Rightarrow> y < x | _ \<Rightarrow> False)"

definition opt_lt :: "nat option \<Rightarrow> nat option \<Rightarrow> bool" where
  "opt_lt a b = opt_gt b a"

definition not_positive :: "nat option \<Rightarrow> bool" where
  "not_positive a = (case a of None \<Rightarrow> True | Some x \<Rightarrow> x < 1)"

definition validateProfile :: "sdm_profile \<Rightarrow> string list" where
  "validateProfile profile =
     (if not_positive (piccDataLength profile)
      then [''piccDataLength must be a positive number''] else []) @
     (if includeUID profile then
        (if uidOffset profile = None
         then [''uidOffset must be a non-negative number when includeUID is true''] else []) @
        (if not_positive (uidLength profile)
         then [''uidLength must be a positive number when includeUID is true''] else []) @
        (if opt_gt (opt_add (uidOffset profile) (uidLength profile)) (piccDataLength profile)
         then [''UID data extends beyond PICC data length''] else [])
      else []) @
     (if includeCounter profile then
        (if counterOffset profile = None
         then [''counterOffset must be a non-negative number when includeCounter is true'']
         else []) @
        (if not_positive (counterLength profile)
         then [''counterLength must be a positive number when includeCounter is true'']
         else []) @
        (if opt_gt (opt_add (counterOffset profile) (counterLength profile))
              (piccDataLength profile)
         then [''Counter data extends beyond PICC data length''] else [])
      else []) @
     (if includeUID profile \<and> includeCounter profile then
        (let uidEnd = opt_add (uidOffset profile) (uidLength profile);
             counterEnd = opt_add (counterOffset profile) (counterLength profile)
         in if (opt_lt (uidOffset profile) (counterOffset profile)
                  \<and> opt_gt uidEnd (counterOffset profile))
               \<or> (opt_lt (counterOffset profile) (uidOffset profile)
                  \<and> opt_gt counterEnd (uidOffset profile))
            then [''UID and counter data regions overlap''] else [])
      else []) @
     (if includeFileData profile then
        (if not_positive (encFileDataLength profile)
         then [''encFileDataLength must be a positive number when includeFileData is true'']
         else [])
      else [])"

section \<open>\<open>data-parser.js\<close>\<close>

text \<open>\<open>params.get(k)\<close>: the first value of the key, or \<open>null\<close>.\<close>

definition params_get :: "(string \<times> string) list \<Rightarrow> string \<Rightarrow> jsval" where
  "params_get ps k = (case map_of ps k of Some v \<Rightarrow> JStr v | None \<Rightarrow> JNull)"

text \<open>
  \<open>DataParser.parseURL(url)\<close> and \<open>DataParser.parseQueryString(queryString)\<close> on
  a string. \<open>new URL(url)\<close> throws on what is not a URL. The fields
  \<open>originalUrl\<close> and \<open>baseUrl\<close> of the result are never read and are left out.
\<close>

definition parseURL :: "prims \<Rightarrow> string \<Rightarrow> jserror + jsval" where
  "parseURL P url =
     (if url = []
      then Inl (JSError ValidationError ''URL must be a non-empty string'')
      else case url_search_params P url of
             None \<Rightarrow> Inl (JSError ValidationError ''Invalid URL format: Invalid URL'')
           | Some params \<Rightarrow>
               Inr (JObj
                 [(''picc'', js_or (params_get params ''picc_data'')
                               (js_or (params_get params ''picc'') (params_get params ''uid''))),
                  (''enc'', js_or (params_get params ''enc'')
                              (js_or (params_get params ''enc_data'') (params_get params ''encdata''))),
                  (''cmac'', js_or (params_get params ''cmac'') (params_get params ''mac'')),
                  (''counter'', js_or (params_get params ''ctr'') (params_get params ''counter''))]))"

definition parseQueryString :: "prims \<Rightarrow> string \<Rightarrow> jserror + jsval" where
  "parseQueryString P queryString =
     (if queryString = []
      then Inl (JSError ValidationError ''Query string must be a non-empty string'')
      else let params = query_params P queryString in
           Inr (JObj
             [(''picc'', js_or (params_get params ''picc_data'')
                           (js_or (params_get params ''picc'') (params_get params ''uid''))),
              (''enc'', js_or (params_get params ''enc'') (params_get params ''enc_data'')),
              (''cmac'', js_or (params_get params ''cmac'') (params_get params ''mac'')),
              (''counter'', js_or (params_get params ''ctr'') (params_get params ''counter''))]))"

text \<open>\<open>DataParser.validateHexString(hexString)\<close>, with no expected length.\<close>

definition validateHexString :: "jsval \<Rightarrow> bool" where
  "validateHexString hexString =
     (if \<not> truthy hexString \<or> typeof hexString \<noteq> ''string'' then False
      else is_hex_string (the_str hexString))"

text \<open>\<open>DataParser.hexToBuffer(hexString, fieldName)\<close>.\<close>

definition hexToBuffer :: "jsval \<Rightarrow> string \<Rightarrow> jserror + buffer" where
  "hexToBuffer hexString fieldName =
     (if \<not> truthy hexString \<or> typeof hexString \<noteq> ''string''
      then Inl (JSError ValidationError (fieldName @ '' must be a non-empty string''))
      else if \<not> validateHexString hexString
      then Inl (JSError ValidationError (fieldName @ '' contains invalid hex characters''))
      else if length (the_str hexString) mod 2 \<noteq> 0
      then Inl (JSError ValidationError (fieldName @ '' hex string must have even length''))
      else Inr (fromHex (the_str hexString)))"

text \<open>
  \<open>DataParser.validateParsedData(data, {requirePicc: true, requireCmac: true,
  strictHex: true})\<close>, as the decoder's \<open>_validateInput\<close> calls it on an object:
  the list of errors.
\<close>

definition validateParsedData :: "jsval \<Rightarrow> string list" where
  "validateParsedData d =
     (if \<not> truthy (get_prop d ''picc'') then [''Missing PICC data''] else []) @
     (if \<not> truthy (get_prop d ''cmac'') then [''Missing CMAC data''] else []) @
     (if truthy (get_prop d ''picc'') \<and> \<not> validateHexString (get_prop d ''picc'')
      then [''Invalid PICC hex format''] else []) @
     (if truthy (get_prop d ''cmac'') \<and> \<not> validateHexString (get_prop d ''cmac'')
      then [''Invalid CMAC hex format''] else []) @
     (if truthy (get_prop d ''enc'') \<and> \<not> validateHexString (get_prop d ''enc'')
      then [''Invalid ENC hex format''] else [])"

text \<open>
  \<open>DataParser.extractPiccData(decryptedPicc, sdmConfig)\<close>. \<open>buf.slice(a, b)\<close> is
  \<open>slice\<close>; \<open>readUIntBE(0, n)\<close> reads \<open>n\<close> bytes, most significant first.
\<close>

record picc_info =
  dataTag :: "nat option"
  info_uid :: "buffer option"
  info_readCounter :: "buffer option"
  readCounterInt :: "nat option"
  padding :: "buffer option"

definition slice :: "buffer \<Rightarrow> nat \<Rightarrow> nat \<Rightarrow> buffer" where
  "slice b from_ix to_ix = take (to_ix - from_ix) (drop from_ix b)"

definition readUIntBE :: "buffer \<Rightarrow> nat \<Rightarrow> nat" where
  "readUIntBE b n = foldl (\<lambda>acc w. acc * 256 + unat w) 0 (take n b)"

definition opt_ge_len :: "nat \<Rightarrow> nat option \<Rightarrow> bool" where
  "opt_ge_len n a = (case a of Some x \<Rightarrow> x \<le> n | None \<Rightarrow> False)"

definition extractPiccData :: "buffer \<Rightarrow> sdm_profile option \<Rightarrow> jserror + picc_info" where
  "extractPiccData decryptedPicc sdmConfig =
     (case sdmConfig of
        None \<Rightarrow> Inl (JSError ValidationError ''Invalid SDM configuration'')
      | Some config \<Rightarrow>
          (let tag = (if 0 < length decryptedPicc then Some (unat (decryptedPicc ! 0)) else None);
               uidEnd = opt_add (uidOffset config) (uidLength config);
               u = (if includeUID config \<and> opt_ge_len (length decryptedPicc) uidEnd
                    then Some (slice decryptedPicc (the (uidOffset config)) (the uidEnd))
                    else None);
               counterEnd = opt_add (counterOffset config) (counterLength config);
               rc = (if includeCounter config \<and> opt_ge_len (length decryptedPicc) counterEnd
                     then Some (slice decryptedPicc (the (counterOffset config)) (the counterEnd))
                     else None);
               rci = (case rc of
                        None \<Rightarrow> None
                      | Some c \<Rightarrow>
                          if 3 \<le> length c then Some (readUIntBE c 3)
                          else if length c = 2 then Some (readUIntBE c 2)
                          else if length c = 1 then Some (unat (c ! 0))
                          else Some 0);
               dataEnd = (case (if includeUID config then uidEnd else Some 0,
                                if includeCounter config then counterEnd else Some 0) of
                            (Some a, Some b) \<Rightarrow> Some (max a b) | _ \<Rightarrow> None);
               pad = (if opt_gt (Some (length decryptedPicc)) dataEnd
                      then Some (drop (the dataEnd) decryptedPicc) else None)
           in Inr \<lparr>dataTag = tag, info_uid = u, info_readCounter = rc,
                   readCounterInt = rci, padding = pad\<rparr>))"

section \<open>\<open>encoder.js\<close>\<close>

text \<open>
  The repository holds two copies of the encoder: the one with structured errors
  and profile validation (\<open>encrypt\<close> below) and an earlier one that throws plain
  \<open>Error\<close>s (\<open>encrypt_v1\<close>). Their private helpers run the same checks with the
  same messages and differ in the class of the error they throw, which is the
  parameter \<open>cls\<close>.
\<close>

definition validateAndConvertUID :: "error_class \<Rightarrow> jsval \<Rightarrow> jserror + buffer" where
  "validateAndConvertUID cls u =
     (case u of
        JBuf b \<Rightarrow>
          if length b \<noteq> 7 then Inl (JSError cls ''UID buffer must be exactly 7 bytes'')
          else Inr b
      | JStr s \<Rightarrow>
          if length s \<noteq> 14
          then Inl (JSError cls ''UID hex string must be exactly 14 characters (7 bytes)'')
          else if \<not> is_hex_string s
          then Inl (JSError cls ''UID contains invalid hex characters'')
          else Inr (fromHex s)
      | _ \<Rightarrow> Inl (JSError cls ''UID must be a 7-byte Buffer or 14-character hex string''))"

text \<open>\<open>Number.isInteger\<close> on a finite number.\<close>

definition isInteger :: "rat \<Rightarrow> bool" where
  "isInteger q = (of_int \<lfloor>q\<rfloor> = q)"

text \<open>\<open>_numberToCounter\<close>: \<open>writeUIntBE(number, 0, 3)\<close> into three bytes.\<close>

definition numberToCounter :: "nat \<Rightarrow> buffer" where
  "numberToCounter n =
     [word_of_nat (n div 65536 mod 256), word_of_nat (n div 256 mod 256), word_of_nat (n mod 256)]"

definition counter_range_message :: string where
  "counter_range_message = ''Counter must be an integer between 0 and 16777215 (2^24 - 1)''"

definition validateAndConvertCounter :: "error_class \<Rightarrow> jsval \<Rightarrow> jserror + buffer" where
  "validateAndConvertCounter cls scanCount =
     (case scanCount of
        JBuf b \<Rightarrow>
          if length b \<noteq> 3 then Inl (JSError cls ''Counter buffer must be exactly 3 bytes'')
          else Inr b
      | JNum q \<Rightarrow>
          if \<not> isInteger q \<or> q < 0 \<or> q > 16777215
          then Inl (JSError cls counter_range_message)
          else Inr (numberToCounter (nat \<lfloor>q\<rfloor>))
      | JNaN \<Rightarrow> Inl (JSError cls counter_range_message)
      | JInfinity _ \<Rightarrow> Inl (JSError cls counter_range_message)
      | _ \<Rightarrow> Inl (JSError cls ''Counter must be a number or 3-byte Buffer''))"

text \<open>\<open>_counterToNumber(buffer)\<close>.\<close>

definition counterToNumber :: "buffer \<Rightarrow> nat" where
  "counterToNumber b = readUIntBE b (min (length b) 3)"

text \<open>
  \<open>_prepareFileData(fileData)\<close> of the later copy: zero padding up to a whole
  number of 16-byte blocks.
\<close>

definition zero_pad16 :: "buffer \<Rightarrow> buffer" where
  "zero_pad16 b = b @ replicate (((length b + 15) div 16) * 16 - length b) 0"

definition prepareFileData :: "prims \<Rightarrow> jsval \<Rightarrow> jserror + buffer" where
  "prepareFileData P fileData =
     (case fileData of
        JBuf b \<Rightarrow> Inr (zero_pad16 b)
      | JStr s \<Rightarrow> Inr (zero_pad16 (utf8_encode P s))
      | _ \<Rightarrow> Inl (JSError ValidationError ''File data must be a string or Buffer''))"

text \<open>\<open>_prepareFileData(fileData)\<close> of the earlier copy: one 16-byte block.\<close>

definition prepareFileData_v1 :: "prims \<Rightarrow> jsval \<Rightarrow> jserror + buffer" where
  "prepareFileData_v1 P fileData =
     (case fileData of
        JBuf b \<Rightarrow> Inr (buf_copy (take (min (length b) 16) b) (replicate 16 0) 0)
      | JStr s \<Rightarrow>
          (let dataBytes = utf8_encode P s
           in Inr (buf_copy (take (min (length dataBytes) 16) dataBytes) (replicate 16 0) 0))
      | _ \<Rightarrow> Inl (JSError Error ''File data must be a string or Buffer''))"

text \<open>\<open>x || d\<close> on a layout field.\<close>

definition or_default :: "nat option \<Rightarrow> nat \<Rightarrow> nat" where
  "or_default a d = (case a of None \<Rightarrow> d | Some x \<Rightarrow> if x = 0 then d else x)"

text \<open>The loop \<open>for (let i = 0; i < n; i++) target[start + i] = src[i]\<close>.\<close>

definition write_bytes :: "buffer \<Rightarrow> nat \<Rightarrow> buffer \<Rightarrow> nat \<Rightarrow> buffer" where
  "write_bytes target start src n = fold (\<lambda>i t. t[start + i := src ! i]) [0..<n] target"

text \<open>
  \<open>_buildPiccData(uid, counter, profile)\<close>; both arguments are Buffers. Its own
  catch clause rethrows with the prefix.
\<close>

definition buildPiccData :: "error_class \<Rightarrow> buffer \<Rightarrow> buffer \<Rightarrow> sdm_profile \<Rightarrow> jserror + buffer" where
  "buildPiccData cls u counter profile =
     catch_err
       (let piccData = replicate (or_default (piccDataLength profile) 16) 0;
            piccData = piccData[0 := 0xC7];
            uidStart = or_default (uidOffset profile) 1;
            uidLen = min (length u) (or_default (uidLength profile) 7);
            counterStart = or_default (counterOffset profile) 8;
            counterLen = min (length counter) (or_default (counterLength profile) 3)
        in if includeUID profile \<and> uidStart + uidLen > length piccData
           then Inl (JSError cls ''UID data extends beyond PICC data length'')
           else let piccData = (if includeUID profile
                                then write_bytes piccData uidStart u uidLen else piccData)
                in if includeCounter profile \<and> counterStart + counterLen > length piccData
                   then Inl (JSError cls ''Counter data extends beyond PICC data length'')
                   else Inr (if includeCounter profile
                             then write_bytes piccData counterStart counter counterLen
                             else piccData))
       (rethrow cls ''PICC data building failed: '')"

record encrypt_options =
  opt_keyDerivationMethod :: "string option"
  opt_sdmProfile :: profile_arg

text \<open>
  The object \<open>encrypt\<close> returns: \<open>originalData\<close> (the \<open>od_\<close> fields),
  \<open>encryptedData\<close> (\<open>picc\<close>, \<open>cmac\<close>, \<open>enc\<close>) and \<open>metadata\<close> (the \<open>md_\<close>
  fields, without its timestamp). A field the object does not have is \<open>None\<close>.
\<close>

record encrypt_result =
  od_uid :: string
  od_scanCount :: nat
  od_masterKey :: string
  od_keyDerivationMethod :: string
  od_sdmProfile :: "string option"
  od_fileData :: "string option"
  picc :: string
  cmac :: string
  enc :: "string option"
  md_profileUsed :: "string option"
  md_hasFileData :: "bool option"

text \<open>\<open>fileData.toString()\<close> on a string or a Buffer.\<close>

definition fileData_toString :: "prims \<Rightarrow> jsval \<Rightarrow> string" where
  "fileData_toString P fileData =
     (case fileData of JStr s \<Rightarrow> s | JBuf b \<Rightarrow> utf8_decode P b | _ \<Rightarrow> [])"

definition name_or_custom :: "sdm_profile \<Rightarrow> string" where
  "name_or_custom p = (case name p of None \<Rightarrow> ''custom'' | Some n \<Rightarrow> if n = [] then ''custom'' else n)"

text \<open>
  \<open>Encoder.encrypt(masterKey, uid, scanCount, fileData, options)\<close>, the copy with
  profile validation. The secure buffer holding the master key is cleared in the
  \<open>finally\<close> clause, after the result is built.
\<close>

definition encrypt ::
  "prims \<Rightarrow> jsval \<Rightarrow> jsval \<Rightarrow> jsval \<Rightarrow> jsval \<Rightarrow> encrypt_options \<Rightarrow> jserror + encrypt_result" where
  "encrypt P masterKey u scanCount fileData options =
     catch_err
       (let keyDerivationMethod =
              (case opt_keyDerivationMethod options of None \<Rightarrow> ''ntag424Official'' | Some m \<Rightarrow> m);
            sdmProfile =
              (if opt_sdmProfile options = PUndefined
               then (if truthy fileData then PName ''full'' else PName ''uidCounter'')
               else opt_sdmProfile options)
        in if \<not> truthy masterKey \<or> typeof masterKey \<noteq> ''string'' \<or> length (the_str masterKey) \<noteq> 32
           then Inl (JSError ValidationError ''Master key must be a 32-character hex string'')
           else if \<not> is_hex_string (the_str masterKey)
           then Inl (JSError ValidationError ''Master key contains invalid hex characters'')
           else
             bind_err (validateAndConvertUID ValidationError u) (\<lambda>uidBuffer.
             bind_err (validateAndConvertCounter ValidationError scanCount) (\<lambda>counterBuffer.
             bind_err (resolve_profile sdmProfile) (\<lambda>resolved.
             case resolved of
               None \<Rightarrow> Inl (JSError ValidationError ''Invalid SDM profile'')
             | Some profile \<Rightarrow>
             bind_err (validateOperationWithProfile ''encrypt'' (Some profile)
                         (JObj [(''uid'', JBuf uidBuffer), (''counter'', JBuf counterBuffer),
                                (''fileData'', fileData)])) (\<lambda>_.
             let masterKeyBuffer = buf_copy (fromHex (the_str masterKey)) (replicate 16 0) 0 in
             bind_err (buildPiccData EncryptionError uidBuffer counterBuffer profile) (\<lambda>piccData.
             bind_err (deriveKeys EncryptionError P masterKeyBuffer zeroUID zeroCounter
                         keyDerivationMethod) (\<lambda>sessionKeys.
             bind_err (AES_cbcEncrypt P (encKey sessionKeys) piccData) (\<lambda>encryptedPicc.
             bind_err
               (if truthy fileData then
                  (if \<not> includeFileData profile
                   then Inl (JSError ValidationError
                          (''Profile '' @ quoted_name profile @
                           '' does not support file data encryption. Use 'full' profile instead.''))
                   else
                     bind_err (prepareFileData P fileData) (\<lambda>fileBuffer.
                     bind_err (AES_cbcEncrypt P (encKey sessionKeys) fileBuffer) (\<lambda>encryptedFile.
                     Inr (Some encryptedFile, encryptedPicc @ encryptedFile))))
                else Inr (None, encryptedPicc)) (\<lambda>(encryptedFile, cmacData).
             bind_err (CMAC_calculate P (macKey sessionKeys) cmacData) (\<lambda>mac.
             Inr \<lparr>od_uid = hexU uidBuffer,
                  od_scanCount = counterToNumber counterBuffer,
                  od_masterKey = ''[REDACTED]'',
                  od_keyDerivationMethod = keyDerivationMethod,
                  od_sdmProfile = Some (name_or_custom profile),
                  od_fileData = (if truthy fileData then Some (fileData_toString P fileData) else None),
                  picc = hexU encryptedPicc,
                  cmac = hexU (take 8 mac),
                  enc = map_option hexU encryptedFile,
                  md_profileUsed = Some (name_or_custom profile),
                  md_hasFileData = Some (truthy fileData)\<rparr>))))))))))
       (\<lambda>e. if eclass e = ValidationError \<or> eclass e = EncryptionError then e
            else rethrow EncryptionError ''Encryption failed: '' e)"

text \<open>
  \<open>Encoder.encrypt\<close> of the earlier copy: no check of the master key's
  characters, no validation of the operation against the profile, the master key
  in \<open>originalData\<close>, no \<open>metadata\<close>; every error is rethrown as a plain \<open>Error\<close>.
\<close>

definition encrypt_v1 ::
  "prims \<Rightarrow> jsval \<Rightarrow> jsval \<Rightarrow> jsval \<Rightarrow> jsval \<Rightarrow> encrypt_options \<Rightarrow> jserror + encrypt_result" where
  "encrypt_v1 P masterKey u scanCount fileData options =
     catch_err
       (let keyDerivationMethod =
              (case opt_keyDerivationMethod options of None \<Rightarrow> ''ntag424Official'' | Some m \<Rightarrow> m);
            sdmProfile =
              (if opt_sdmProfile options = PUndefined
               then (if truthy fileData then PName ''full'' else PName ''uidCounter'')
               else opt_sdmProfile options)
        in if \<not> truthy masterKey \<or> typeof masterKey \<noteq> ''string'' \<or> length (the_str masterKey) \<noteq> 32
           then Inl (JSError Error ''Master key must be a 32-character hex string'')
           else
             bind_err (validateAndConvertUID Error u) (\<lambda>uidBuffer.
             bind_err (validateAndConvertCounter Error scanCount) (\<lambda>counterBuffer.
             let masterKeyBuffer = fromHex (the_str masterKey) in
             bind_err (resolve_profile sdmProfile) (\<lambda>resolved.
             case resolved of
               None \<Rightarrow> Inl (JSError Error ''Invalid SDM profile'')
             | Some sdmConfig \<Rightarrow>
             bind_err (buildPiccData Error uidBuffer counterBuffer sdmConfig) (\<lambda>piccData.
             bind_err (deriveKeys Error P masterKeyBuffer zeroUID zeroCounter
                         keyDerivationMethod) (\<lambda>sessionKeys.
             bind_err (AES_cbcEncrypt P (encKey sessionKeys) piccData) (\<lambda>encryptedPicc.
             bind_err
               (if truthy fileData then
                  bind_err (prepareFileData_v1 P fileData) (\<lambda>fileBuffer.
                  bind_err (AES_cbcEncrypt P (encKey sessionKeys) fileBuffer) (\<lambda>encryptedFile.
                  Inr (Some encryptedFile, encryptedPicc @ encryptedFile)))
                else Inr (None, encryptedPicc)) (\<lambda>(encryptedFile, cmacData).
             bind_err (CMAC_calculate P (macKey sessionKeys) cmacData) (\<lambda>mac.
             Inr \<lparr>od_uid = hexU uidBuffer,
                  od_scanCount = counterToNumber counterBuffer,
                  od_masterKey = the_str masterKey,
                  od_keyDerivationMethod = keyDerivationMethod,
                  od_sdmProfile = None,
                  od_fileData = (if truthy fileData then Some (fileData_toString P fileData) else None),
                  picc = hexU encryptedPicc,
                  cmac = hexU (take 8 mac),
                  enc = map_option hexU encryptedFile,
                  md_profileUsed = None,
                  md_hasFileData = None\<rparr>)))))))))
       (rethrow Error ''Encryption failed: '')"

section \<open>\<open>decoder.js\<close>\<close>

text \<open>
  The options a decoder holds, and the \<open>customOptions\<close> object of one call: a key it
  does not have is \<open>None\<close>. \<open>{ ...this.options, ...customOptions }\<close> is
  \<open>merge_options\<close>.
\<close>

record decoder_options =
  keyDerivationMethod :: string
  sdmProfile :: profile_arg
  validateCMAC :: bool
  strictValidation :: bool

record custom_options =
  co_keyDerivationMethod :: "string option"
  co_sdmProfile :: "profile_arg option"
  co_validateCMAC :: "bool option"
  co_strictValidation :: "bool option"

definition merge_options :: "decoder_options \<Rightarrow> custom_options \<Rightarrow> decoder_options" where
  "merge_options base c =
     \<lparr>keyDerivationMethod =
        (case co_keyDerivationMethod c of Some m \<Rightarrow> m | None \<Rightarrow> keyDerivationMethod base),
      sdmProfile = (case co_sdmProfile c of Some p \<Rightarrow> p | None \<Rightarrow> sdmProfile base),
      validateCMAC = (case co_validateCMAC c of Some b \<Rightarrow> b | None \<Rightarrow> validateCMAC base),
      strictValidation =
        (case co_strictValidation c of Some b \<Rightarrow> b | None \<Rightarrow> strictValidation base)\<rparr>"

definition default_options :: decoder_options where
  "default_options =
     \<lparr>keyDerivationMethod = ''ntag424Official'', sdmProfile = PName ''uidCounter'',
      validateCMAC = True, strictValidation = False\<rparr>"

text \<open>
  The result of \<open>decrypt\<close>: on success the decoded fields (\<open>sessionKeys\<close> as the
  \<open>sk_\<close> fields, \<open>rawDecrypted\<close> as the \<open>raw_\<close> fields; the echoes of
  \<open>piccInfo\<close> and of the options, and the clock readings, are left out), on
  failure the error's message, and in the later copy its class.
\<close>

record decrypt_ok =
  uid :: "string option"
  readCounter :: "nat option"
  tag :: "string option"
  encryptedFileData :: "string option"
  cmacValid :: bool
  sk_encKey :: string
  sk_macKey :: string
  sk_derivationMethod :: string
  raw_picc :: string
  raw_enc :: "string option"

datatype decrypt_result =
    Success decrypt_ok
  | Failure string
  | FailureT string error_class

text \<open>\<open>n.toString(16).toUpperCase()\<close> on a byte.\<close>

definition byte_toString16 :: "nat \<Rightarrow> string" where
  "byte_toString16 n =
     toUpperCase (if n < 16 then [hexdigit n] else [hexdigit (n div 16), hexdigit (n mod 16)])"

text \<open>\<open>s.replace(/\0+$/, '')\<close>.\<close>

definition strip_trailing_nul :: "string \<Rightarrow> string" where
  "strip_trailing_nul s = rev (dropWhile (\<lambda>c. c = CHR 0x00) (rev s))"

text \<open>\<open>_extractFileData(decryptedEnc)\<close>.\<close>

definition extractFileData :: "prims \<Rightarrow> buffer option \<Rightarrow> string option" where
  "extractFileData P decryptedEnc =
     (case decryptedEnc of
        None \<Rightarrow> None
      | Some b \<Rightarrow>
          (let utf8String = strip_trailing_nul (utf8_decode P b)
           in if 0 < length utf8String then Some utf8String else None))"

text \<open>\<open>_isValidDecryption(decryptedPicc, piccInfo)\<close>.\<close>

definition isValidDecryption :: "buffer \<Rightarrow> picc_info \<Rightarrow> bool" where
  "isValidDecryption decryptedPicc piccInfo =
     (if dataTag piccInfo \<noteq> Some 0xC7 then False
      else if length decryptedPicc < 11 then False
      else if (case info_uid piccInfo of
                 Some b \<Rightarrow> (if 0 < length b then unat (b ! 0) \<noteq> 0x04 else True)
               | None \<Rightarrow> False) then False
      else if (case readCounterInt piccInfo of Some c \<Rightarrow> c > 16777215 | None \<Rightarrow> False)
      then False
      else True)"

subsection \<open>The earlier copy\<close>

record decoder =
  masterKey :: buffer
  options :: decoder_options

definition str_includes :: "string \<Rightarrow> string \<Rightarrow> bool" where
  "str_includes s sub = (\<exists>i \<in> set [0..<Suc (length s)]. take (length sub) (drop i s) = sub)"

text \<open>\<open>_validateOptions()\<close>.\<close>

definition validateOptions :: "error_class \<Rightarrow> decoder_options \<Rightarrow> jserror + unit" where
  "validateOptions cls opts =
     (if keyDerivationMethod opts \<notin> set [''ntag424Official'', ''hkdf'', ''pbkdf2'', ''simpleHash'']
      then Inl (JSError cls (''Invalid key derivation method: '' @ keyDerivationMethod opts))
      else case sdmProfile opts of
             PName s \<Rightarrow>
               if s \<notin> set getAvailableProfiles
               then Inl (JSError cls (''Invalid SDM profile: '' @ s)) else Inr ()
           | PObj p \<Rightarrow>
               if validateProfile p \<noteq> []
               then Inl (JSError cls (''Invalid SDM profile: '' @ join '', '' (validateProfile p)))
               else Inr ()
           | PNull \<Rightarrow> Inl (JSError cls ''Invalid SDM profile: Profile must be an object'')
           | PUndefined \<Rightarrow> Inr ())"

text \<open>\<open>new Decoder(masterKey, options)\<close>.\<close>

definition new_Decoder :: "jsval \<Rightarrow> custom_options \<Rightarrow> jserror + decoder" where
  "new_Decoder mk opts =
     catch_err
       (if \<not> truthy mk \<or> typeof mk \<noteq> ''string'' \<or> length (the_str mk) \<noteq> 32
        then Inl (JSError Error ''Master key must be a 32-character hex string'')
        else if \<not> is_hex_string (the_str mk)
        then Inl (JSError Error ''Master key contains invalid hex characters'')
        else bind_err (validateOptions Error (merge_options default_options opts)) (\<lambda>_.
             Inr \<lparr>masterKey = fromHex (the_str mk),
                  options = merge_options default_options opts\<rparr>))
       (rethrow Error ''Decoder initialization failed: '')"

text \<open>
  \<open>_parseInput(input)\<close>: a string is a URL when it contains \<open>://\<close> and a query
  string otherwise; an object is taken as it is.
\<close>

definition parseInput :: "error_class \<Rightarrow> prims \<Rightarrow> jsval \<Rightarrow> jserror + jsval" where
  "parseInput cls P input =
     catch_err
       (if typeof input = ''string'' then
          (if str_includes (the_str input) ''://'' then parseURL P (the_str input)
           else parseQueryString P (the_str input))
        else if typeof input = ''object'' \<and> input \<noteq> JNull then Inr input
        else Inl (JSError (if cls = Error then Error else ValidationError) ''Invalid input format''))
       (rethrow cls ''Input parsing failed: '')"

text \<open>\<open>_validateInput(data)\<close>.\<close>

definition validateInput :: "jsval \<Rightarrow> jserror + unit" where
  "validateInput d =
     (if validateParsedData d \<noteq> []
      then Inl (JSError Error (join '', '' (validateParsedData d))) else Inr ())"

text \<open>
  \<open>_performDecryption(piccData, encData, cmacData, sdmConfig, options)\<close>: the keys
  come from the zero UID and the zero counter.
\<close>

definition performDecryption ::
  "prims \<Rightarrow> decoder \<Rightarrow> buffer \<Rightarrow> buffer option \<Rightarrow> buffer \<Rightarrow> sdm_profile option
     \<Rightarrow> decoder_options \<Rightarrow> jserror + decrypt_ok" where
  "performDecryption P this piccData encData cmacData sdmConfig opts =
     catch_err
       (bind_err (deriveKeys Error P (masterKey this) zeroUID zeroCounter
                    (keyDerivationMethod opts)) (\<lambda>sessionKeys.
        bind_err (AES_cbcDecrypt P (encKey sessionKeys) piccData) (\<lambda>decryptedPicc.
        bind_err (extractPiccData decryptedPicc sdmConfig) (\<lambda>piccInfo.
        if \<not> isValidDecryption decryptedPicc piccInfo
        then Inl (JSError Error ''Invalid decrypted data structure'')
        else
          bind_err
            (case encData of
               None \<Rightarrow> Inr None
             | Some e \<Rightarrow>
                 catch_err
                   (bind_err (AES_cbcDecrypt P (encKey sessionKeys) e) (\<lambda>d. Inr (Some d)))
                   (rethrow Error ''File data decryption failed: '')) (\<lambda>decryptedEnc.
          let valid =
                (if validateCMAC opts
                 then CMAC_verify P (macKey sessionKeys)
                        (piccData @ (case encData of Some e \<Rightarrow> e | None \<Rightarrow> [])) cmacData
                 else True)
          in Inr \<lparr>uid = map_option hexU (info_uid piccInfo),
                  readCounter = readCounterInt piccInfo,
                  tag = map_option byte_toString16 (dataTag piccInfo),
                  encryptedFileData = extractFileData P decryptedEnc,
                  cmacValid = valid,
                  sk_encKey = hexU (encKey sessionKeys),
                  sk_macKey = hexU (macKey sessionKeys),
                  sk_derivationMethod = derivationMethod sessionKeys,
                  raw_picc = hexU decryptedPicc,
                  raw_enc = map_option hexU decryptedEnc\<rparr>)))))
       (rethrow Error ''Zero vector decryption failed: '')"

text \<open>
  \<open>decrypt(input, customOptions)\<close>: the merge of the options stands before the
  \<open>try\<close> and cannot throw; everything else is inside it.
\<close>

definition decrypt :: "prims \<Rightarrow> decoder \<Rightarrow> jsval \<Rightarrow> custom_options \<Rightarrow> decrypt_result" where
  "decrypt P this input customOptions =
     (let opts = merge_options (options this) customOptions
      in case
           bind_err (parseInput Error P input) (\<lambda>d.
           bind_err (if strictValidation opts then validateInput d else Inr ()) (\<lambda>_.
           bind_err (hexToBuffer (get_prop d ''picc'') ''PICC data'') (\<lambda>piccData.
           bind_err (if truthy (get_prop d ''enc'')
                     then bind_err (hexToBuffer (get_prop d ''enc'') ''ENC data'') (\<lambda>b. Inr (Some b))
                     else Inr None) (\<lambda>encData.
           bind_err (hexToBuffer (get_prop d ''cmac'') ''CMAC data'') (\<lambda>cmacData.
           bind_err (resolve_profile (sdmProfile opts)) (\<lambda>sdmConfig.
           performDecryption P this piccData encData cmacData sdmConfig opts))))))
         of Inr r \<Rightarrow> Success r
          | Inl e \<Rightarrow> Failure (emessage e))"

subsection \<open>The later copy\<close>

text \<open>
  The decoder keeps its master key in a secure buffer, which \<open>destroy()\<close> clears;
  reading a cleared buffer throws. \<open>timingAttackProtection\<close> only delays the
  failure result and is left out.
\<close>

record decoder_v2 =
  masterKeyBuffer :: buffer
  cleared :: bool
  options_v2 :: decoder_options

text \<open>
  \<open>_hexToBuffer(hexString, fieldName)\<close>. Its catch clause builds the details of
  the error it throws with \<open>hexString?.substring(0, 20)\<close>, which is itself a
  \<open>TypeError\<close> on a value that is neither nullish nor a string.
\<close>

definition hexToBuffer_v2 :: "jsval \<Rightarrow> string \<Rightarrow> jserror + buffer" where
  "hexToBuffer_v2 hexString fieldName =
     catch_err (hexToBuffer hexString fieldName)
       (\<lambda>e. if typeof hexString = ''string'' \<or> hexString = JUndefined \<or> hexString = JNull
            then rethrow DecryptionError (''Failed to convert '' @ fieldName @ '' to Buffer: '') e
            else JSError TypeError ''hexString?.substring is not a function'')"

definition keep_decryption :: "string \<Rightarrow> jserror \<Rightarrow> jserror" where
  "keep_decryption prefix e =
     (if eclass e = DecryptionError then e else rethrow DecryptionError prefix e)"

text \<open>\<open>_performSecureDecryption(data, profile, options, context)\<close>.\<close>

definition performSecureDecryption ::
  "prims \<Rightarrow> decoder_v2 \<Rightarrow> jsval \<Rightarrow> sdm_profile \<Rightarrow> decoder_options \<Rightarrow> jserror + decrypt_ok" where
  "performSecureDecryption P this d profile opts =
     bind_err (hexToBuffer_v2 (get_prop d ''picc'') ''PICC data'') (\<lambda>piccData.
     bind_err (if truthy (get_prop d ''enc'')
               then bind_err (hexToBuffer_v2 (get_prop d ''enc'') ''ENC data'') (\<lambda>b. Inr (Some b))
               else Inr None) (\<lambda>encData.
     bind_err (hexToBuffer_v2 (get_prop d ''cmac'') ''CMAC data'') (\<lambda>cmacData.
     catch_err
       (bind_err (if cleared this
                  then Inl (JSError SecurityError ''Attempted to access cleared secure buffer'')
                  else Inr (masterKeyBuffer this)) (\<lambda>mk.
        bind_err (deriveKeys DecryptionError P mk zeroUID zeroCounter
                    (keyDerivationMethod opts)) (\<lambda>sessionKeys.
        bind_err (AES_cbcDecrypt P (encKey sessionKeys) piccData) (\<lambda>decryptedPicc.
        bind_err (extractPiccData decryptedPicc (Some profile)) (\<lambda>piccInfo.
        if \<not> isValidDecryption decryptedPicc piccInfo
        then Inl (JSError DecryptionError ''Invalid decrypted data structure'')
        else
          bind_err
            (case encData of
               None \<Rightarrow> Inr None
             | Some e \<Rightarrow>
                 if \<not> includeFileData profile
                 then Inl (JSError DecryptionError
                        (''Profile '' @ quoted_name profile @ '' does not support encrypted file data''))
                 else
                   catch_err
                     (bind_err (AES_cbcDecrypt P (encKey sessionKeys) e) (\<lambda>d. Inr (Some d)))
                     (rethrow DecryptionError ''File data decryption failed: '')) (\<lambda>decryptedEnc.
          bind_err
            (if validateCMAC opts then
               catch_err
                 (bind_err (CMAC_calculate P (macKey sessionKeys)
                              (piccData @ (case encData of Some e \<Rightarrow> e | None \<Rightarrow> [])))
                    (\<lambda>calculatedCmac.
                       Inr (timingSafeEqual (take (length cmacData) calculatedCmac) cmacData)))
                 (rethrow DecryptionError ''CMAC verification failed: '')
             else Inr True) (\<lambda>valid.
          Inr \<lparr>uid = map_option hexU (info_uid piccInfo),
               readCounter = readCounterInt piccInfo,
               tag = map_option byte_toString16 (dataTag piccInfo),
               encryptedFileData = extractFileData P decryptedEnc,
               cmacValid = valid,
               sk_encKey = hexU (encKey sessionKeys),
               sk_macKey = hexU (macKey sessionKeys),
               sk_derivationMethod = derivationMethod sessionKeys,
               raw_picc = hexU decryptedPicc,
               raw_enc = map_option hexU decryptedEnc\<rparr>)))))))
       (keep_decryption ''Zero vector decryption failed: ''))))"

text \<open>
  \<open>decrypt(input, customOptions)\<close> with \<open>customOptions\<close> an object.
  \<open>ErrorHelper.createContext\<close>, which stands before the \<open>try\<close>, reads
  \<open>input?.length\<close> and the keys of \<open>customOptions\<close> and does not throw on them.
\<close>

definition decrypt_v2 :: "prims \<Rightarrow> decoder_v2 \<Rightarrow> jsval \<Rightarrow> custom_options \<Rightarrow> decrypt_result" where
  "decrypt_v2 P this input customOptions =
     (case
        (let opts = merge_options (options_v2 this) customOptions in
         bind_err (parseInput DecryptionError P input) (\<lambda>d.
         bind_err (resolve_profile (sdmProfile opts)) (\<lambda>profile.
         bind_err (validateOperationWithProfile ''decrypt'' profile d) (\<lambda>_.
         performSecureDecryption P this d (the profile) opts))))
      of Inr r \<Rightarrow> Success r
       | Inl e \<Rightarrow> FailureT (emessage e) (eclass e))"

section \<open>Closed forms used in the statements\<close>

text \<open>
  The object \<open>result.encryptedData\<close> of an encoding, which is what a caller hands
  to \<open>decrypt\<close>: \<open>picc\<close>, \<open>cmac\<close>, and \<open>enc\<close> when there is file data.
\<close>

definition encryptedData :: "encrypt_result \<Rightarrow> jsval" where
  "encryptedData r =
     JObj ([(''picc'', JStr (picc r)), (''cmac'', JStr (cmac r))] @
           (case enc r of Some e \<Rightarrow> [(''enc'', JStr e)] | None \<Rightarrow> []))"

text \<open>
  The 16-byte PICC plaintext that \<open>buildPiccData\<close> produces for a predefined
  profile, a 7-byte UID and a 3-byte counter (lemma \<open>buildPiccData_predefined\<close>):
  the tag byte, the fields the profile includes, zeros.
\<close>

definition picc_block :: "sdm_profile \<Rightarrow> buffer \<Rightarrow> buffer \<Rightarrow> buffer" where
  "picc_block p u c =
     0xC7 # (if includeUID p then u else []) @ (if includeCounter p then c else []) @
       replicate (15 - (if includeUID p then 7 else 0) - (if includeCounter p then 3 else 0)) 0"

section \<open>A stand-in for the primitives\<close>

text \<open>
  To run the codec on concrete inputs: a block cipher that XORs the block with
  the key, a 16-byte checksum for the MAC, and byte-per-character text. It
  satisfies \<open>prims_ok\<close> and is used for nothing but examples.
\<close>

definition checksum :: "buffer \<Rightarrow> byte" where
  "checksum d = foldr (+) d 0"

definition toy :: prims where
  "toy =
     \<lparr>aes_block_encrypt = (\<lambda>k b. xor_bytes b k),
      aes_block_decrypt = (\<lambda>k b. xor_bytes b k),
      aesCmac = (\<lambda>k d. replicate 16 (checksum (k @ d))),
      hkdfSync = (\<lambda>k s i n. replicate n (checksum (k @ s @ i))),
      pbkdf2Sync = (\<lambda>k s i n. replicate n (checksum (k @ s))),
      sha256 = (\<lambda>d. replicate 32 (checksum d)),
      utf8_encode = ascii_bytes,
      utf8_decode = map (\<lambda>w. char_of (unat w)),
      url_search_params = (\<lambda>u. None),
      query_params = (\<lambda>q. [])\<rparr>"

section \<open>Hexadecimal strings and the block mode\<close>

declare cbc_enc.simps [simp del] cbc_dec.simps [simp del]

lemma hexval_hexdigit_all:
  "\<forall>n \<in> set [0..<16]. hexval (hexdigit n) = Some n \<and> hexval (upper_char (hexdigit n)) = Some n"
  by code_simp

lemma hexval_hexdigit: "n < 16 \<Longrightarrow> hexval (hexdigit n) = Some n"
  using hexval_hexdigit_all by simp

lemma hexval_upper_hexdigit: "n < 16 \<Longrightarrow> hexval (upper_char (hexdigit n)) = Some n"
  using hexval_hexdigit_all by simp

lemma hexval_chars_all:
  "\<forall>c \<in> set ''0123456789ABCDEFabcdef''.
     upper_char (hexdigit (the (hexval c))) = upper_char c \<and> the (hexval c) < 16"
  by code_simp

lemma hexval_dom: "hexval c = Some x \<Longrightarrow> c \<in> set ''0123456789ABCDEFabcdef''"
  unfolding hexval_def by (drule map_of_SomeD) (rule set_zip_leftD)

lemma hexval_less: "hexval c = Some x \<Longrightarrow> x < 16"
  using hexval_chars_all hexval_dom[of c x] by (metis option.sel)

lemma upper_hexdigit_hexval: "hexval c = Some x \<Longrightarrow> upper_char (hexdigit x) = upper_char c"
  using hexval_chars_all hexval_dom[of c x] by (metis option.sel)

lemma unat_byte_less: "unat (w :: byte) < 256"
proof -
  have "unat w < 2 ^ LENGTH(8)" by (rule unsigned_less)
  then show ?thesis by simp
qed

lemma unat_byte_div16: "unat (w :: byte) div 16 < 16"
  using unat_byte_less[of w] by simp

lemma fromHex_toHex: "fromHex (toHex b) = b"
  by (induction b) (simp_all add: toHex_def hexval_hexdigit unat_byte_div16)

lemma fromHex_hexU: "fromHex (hexU b) = b"
  by (induction b) (simp_all add: hexU_def toHex_def toUpperCase_def hexval_upper_hexdigit unat_byte_div16)

lemma length_hexU: "length (hexU b) = 2 * length b"
  by (induction b) (simp_all add: hexU_def toHex_def toUpperCase_def)

lemma hexU_Cons:
  "hexU (w # b) = upper_char (hexdigit (unat w div 16)) # upper_char (hexdigit (unat w mod 16)) # hexU b"
  by (simp add: hexU_def toHex_def toUpperCase_def)

lemma hexU_fromHex:
  "list_all (\<lambda>c. hexval c \<noteq> None) s \<Longrightarrow> even (length s) \<Longrightarrow> hexU (fromHex s) = toUpperCase s"
proof (induction s rule: fromHex.induct)
  case (1 a b rest)
  then obtain x y where xy: "hexval a = Some x" "hexval b = Some y" by auto
  have xl: "x < 16" and yl: "y < 16" using xy hexval_less by auto
  have u: "unat (word_of_nat (16 * x + y) :: byte) = 16 * x + y"
  proof -
    have "unat (word_of_nat (16 * x + y) :: byte) = (16 * x + y) mod 2 ^ LENGTH(8)"
      by (rule unat_of_nat)
    then show ?thesis using xl yl by simp
  qed
  have r: "hexU (fromHex rest) = toUpperCase rest" using 1 xy by simp
  have d: "(16 * x + y) div 16 = x" "(16 * x + y) mod 16 = y" using xl yl by auto
  have "fromHex (a # b # rest) = word_of_nat (16 * x + y) # fromHex rest"
    using xy by simp
  then have "hexU (fromHex (a # b # rest))
      = upper_char (hexdigit x) # upper_char (hexdigit y) # hexU (fromHex rest)"
    by (simp only: hexU_Cons u d)
  then show ?case
    using r upper_hexdigit_hexval[OF xy(1)] upper_hexdigit_hexval[OF xy(2)]
    by (simp add: toUpperCase_def)
qed (simp_all add: hexU_def toHex_def toUpperCase_def)

lemma length_fromHex:
  "list_all (\<lambda>c. hexval c \<noteq> None) s \<Longrightarrow> length (fromHex s) = length s div 2"
  by (induction s rule: fromHex.induct) auto

subsection \<open>CBC with padding inverts\<close>

lemma length_xor_bytes: "length (xor_bytes a b) = min (length a) (length b)"
  by (simp add: xor_bytes_def)

lemma xor_bytes_cancel: "length a = length b \<Longrightarrow> xor_bytes (xor_bytes a b) b = a"
proof (induction a arbitrary: b)
  case Nil then show ?case by (simp add: xor_bytes_def)
next
  case (Cons x a)
  then obtain y b' where b: "b = y # b'" by (cases b) auto
  have "(x XOR y) XOR y = x" by (simp add: xor.assoc)
  then show ?case using Cons b by (simp add: xor_bytes_def)
qed

lemma length_pkcs7_pad: "length (pkcs7_pad d) = (length d div 16 + 1) * 16"
proof -
  have "length d mod 16 < 16" by simp
  then have "length d + (16 - length d mod 16) = (length d div 16 + 1) * 16"
    using div_mult_mod_eq[of "length d" 16] by arith
  then show ?thesis by (simp add: pkcs7_pad_def Let_def)
qed

lemma pkcs7_unpad_pad: "pkcs7_unpad (pkcs7_pad d) = Some d"
proof -
  define n where "n = 16 - length d mod 16"
  have n: "0 < n" "n \<le> 16" unfolding n_def by auto
  have un: "unat (word_of_nat n :: byte) = n"
  proof -
    have "unat (word_of_nat n :: byte) = n mod 2 ^ LENGTH(8)" by (rule unat_of_nat)
    then show ?thesis using n by simp
  qed
  have p: "pkcs7_pad d = d @ replicate n (word_of_nat n)"
    by (simp add: pkcs7_pad_def n_def Let_def)
  have l: "last (d @ replicate n (word_of_nat n :: byte)) = word_of_nat n"
    using n by (cases n) (auto simp: last_append)
  show ?thesis unfolding p pkcs7_unpad_def Let_def l un using n by auto
qed

lemma cbc_roundtrip:
  "\<forall>b. length b = 16 \<longrightarrow> length (E b) = 16 \<and> D (E b) = b \<Longrightarrow>
   length prev = 16 \<Longrightarrow> length d mod 16 = 0 \<Longrightarrow> cbc_dec D prev (cbc_enc E prev d) = d"
proof (induction E prev d rule: cbc_enc.induct)
  case (1 E prev d)
  note inv = 1(2) and lp = 1(3) and lm = 1(4)
  show ?case
  proof (cases "d = []")
    case True
    then show ?thesis by (simp add: cbc_enc.simps cbc_dec.simps)
  next
    case False
    have len: "16 \<le> length d" using False lm by (cases "length d < 16") auto
    define c where "c = E (xor_bytes (take 16 d) prev)"
    have lx: "length (xor_bytes (take 16 d) prev) = 16"
      using len lp by (simp add: length_xor_bytes)
    have lc: "length c = 16" and dc: "D c = xor_bytes (take 16 d) prev"
      using inv lx by (simp_all add: c_def)
    have rest: "length (drop 16 d) mod 16 = 0" using lm len by (simp add: le_mod_geq)
    have ih: "cbc_dec D c (cbc_enc E c (drop 16 d)) = drop 16 d"
      using 1(1)[OF False _ inv lc rest] by (simp add: c_def)
    have e: "cbc_enc E prev d = c @ cbc_enc E c (drop 16 d)"
      using False by (subst cbc_enc.simps) (simp add: c_def Let_def)
    have "cbc_dec D prev (c @ cbc_enc E c (drop 16 d))
        = xor_bytes (D c) prev @ cbc_dec D c (cbc_enc E c (drop 16 d))"
      using lc by (subst cbc_dec.simps) (auto simp: Let_def)
    also have "\<dots> = take 16 d @ drop 16 d"
      using ih dc xor_bytes_cancel[of "take 16 d" prev] len lp by simp
    finally show ?thesis using e by simp
  qed
qed

lemma length_cbc_enc:
  "\<forall>b. length b = 16 \<longrightarrow> length (E b) = 16 \<Longrightarrow>
   length prev = 16 \<Longrightarrow> length d mod 16 = 0 \<Longrightarrow> length (cbc_enc E prev d) = length d"
proof (induction E prev d rule: cbc_enc.induct)
  case (1 E prev d)
  note inv = 1(2) and lp = 1(3) and lm = 1(4)
  show ?case
  proof (cases "d = []")
    case True
    then show ?thesis by (simp add: cbc_enc.simps)
  next
    case False
    have len: "16 \<le> length d" using False lm by (cases "length d < 16") auto
    define c where "c = E (xor_bytes (take 16 d) prev)"
    have lx: "length (xor_bytes (take 16 d) prev) = 16"
      using len lp by (simp add: length_xor_bytes)
    have lc: "length c = 16" using inv lx by (simp add: c_def)
    have rest: "length (drop 16 d) mod 16 = 0" using lm len by (simp add: le_mod_geq)
    have ih: "length (cbc_enc E c (drop 16 d)) = length (drop 16 d)"
      using 1(1)[OF False _ inv lc rest] by (simp add: c_def)
    have e: "cbc_enc E prev d = c @ cbc_enc E c (drop 16 d)"
      using False by (subst cbc_enc.simps) (simp add: c_def Let_def)
    show ?thesis using e ih lc len by simp
  qed
qed

section \<open>The codec on well-formed inputs\<close>

lemma bind_err_Inr [simp]: "bind_err (Inr x) f = f x"
  by (simp add: bind_err_def)

lemma bind_err_Inl [simp]: "bind_err (Inl e) f = Inl e"
  by (simp add: bind_err_def)

lemma catch_err_Inr [simp]: "catch_err (Inr x) h = Inr x"
  by (simp add: catch_err_def)

lemma catch_err_Inl [simp]: "catch_err (Inl e) h = Inl (h e)"
  by (simp add: catch_err_def)

lemma block_cipher_inv:
  "prims_ok P \<Longrightarrow> length k = 16 \<Longrightarrow>
   \<forall>b. length b = 16 \<longrightarrow>
       length (aes_block_encrypt P k b) = 16 \<and>
       aes_block_decrypt P k (aes_block_encrypt P k b) = b"
  by (simp add: prims_ok_def)

lemma AES_cbcEncrypt_ok:
  "length k = 16 \<Longrightarrow>
   AES_cbcEncrypt P k d = Inr (cbc_enc (aes_block_encrypt P k) zero_iv (pkcs7_pad d))"
  by (simp add: AES_cbcEncrypt_def)

lemma length_cbc_pad:
  assumes "prims_ok P" "length k = 16"
  shows "length (cbc_enc (aes_block_encrypt P k) zero_iv (pkcs7_pad d)) = (length d div 16 + 1) * 16"
proof -
  have "\<forall>b. length b = 16 \<longrightarrow> length (aes_block_encrypt P k b) = 16"
    using block_cipher_inv[OF assms] by simp
  then have "length (cbc_enc (aes_block_encrypt P k) zero_iv (pkcs7_pad d)) = length (pkcs7_pad d)"
    by (rule length_cbc_enc) (simp_all add: zero_iv_def length_pkcs7_pad)
  then show ?thesis by (simp add: length_pkcs7_pad)
qed

lemma AES_cbcDecrypt_cbcEncrypt:
  assumes "prims_ok P" "length k = 16"
  shows "AES_cbcDecrypt P k (cbc_enc (aes_block_encrypt P k) zero_iv (pkcs7_pad d)) = Inr d"
proof -
  let ?c = "cbc_enc (aes_block_encrypt P k) zero_iv (pkcs7_pad d)"
  have l: "length ?c = (length d div 16 + 1) * 16" by (rule length_cbc_pad[OF assms])
  have "cbc_dec (aes_block_decrypt P k) zero_iv ?c = pkcs7_pad d"
    by (rule cbc_roundtrip[OF block_cipher_inv[OF assms]]) (simp_all add: zero_iv_def length_pkcs7_pad)
  then show ?thesis using l assms(2) by (simp add: AES_cbcDecrypt_def pkcs7_unpad_pad)
qed

lemma four_methods:
  "m \<in> set [''ntag424Official'', ''hkdf'', ''pbkdf2'', ''simpleHash''] \<Longrightarrow>
   derivationMethods m \<noteq> None"
  by (auto simp: derivationMethods_def)

lemma deriveKeys_ok:
  assumes "prims_ok P" "length mk = 16"
    and "m \<in> set [''ntag424Official'', ''hkdf'', ''pbkdf2'', ''simpleHash'']"
  shows "\<exists>ks. deriveKeys cls P mk u c m = Inr ks \<and> length (encKey ks) = 16 \<and> length (macKey ks) = 16"
proof -
  have c: "\<And>k d. length (aesCmac P k d) = 16" using assms(1) by (simp add: prims_ok_def)
  have h: "\<And>k s i n. length (hkdfSync P k s i n) = n" using assms(1) by (simp add: prims_ok_def)
  have p: "\<And>k s i n. length (pbkdf2Sync P k s i n) = n" using assms(1) by (simp add: prims_ok_def)
  have s: "\<And>d. length (sha256 P d) = 32" using assms(1) by (simp add: prims_ok_def)
  from assms(3) consider "m = ''ntag424Official''" | "m = ''hkdf''" | "m = ''pbkdf2''" | "m = ''simpleHash''"
    by auto
  then show ?thesis
  proof cases
    case 1 then show ?thesis using assms(2) c
      by (simp add: deriveKeys_def derivationMethods_def ntag424Official_def Let_def)
  next
    case 2 then show ?thesis using h
      by (simp add: deriveKeys_def derivationMethods_def hkdf_def Let_def)
  next
    case 3 then show ?thesis using p
      by (simp add: deriveKeys_def derivationMethods_def pbkdf2_def Let_def)
  next
    case 4 then show ?thesis using s
      by (simp add: deriveKeys_def derivationMethods_def simpleHash_def Let_def)
  qed
qed

lemma deriveKeys_cls:
  "deriveKeys cls P mk u c m = Inr ks \<Longrightarrow> deriveKeys cls' P mk u c m = Inr ks"
  by (auto simp: deriveKeys_def split: option.splits if_splits)

lemma is_hex_string_all: "is_hex_string s \<Longrightarrow> list_all (\<lambda>c. hexval c \<noteq> None) s"
  by (simp add: is_hex_string_def)

lemma buf_copy_full: "length src = length t \<Longrightarrow> buf_copy src t 0 = src"
  by (cases "t = []") (auto simp: buf_copy_def)

lemma masterKey_bytes:
  "is_hex_string mk \<Longrightarrow> length mk = 32 \<Longrightarrow>
   length (fromHex mk) = 16 \<and> buf_copy (fromHex mk) (replicate 16 0) 0 = fromHex mk"
  using length_fromHex[OF is_hex_string_all, of mk] by (simp add: buf_copy_full)

lemma write_bytes_step:
  "n \<le> length src \<Longrightarrow> start + n \<le> length t \<Longrightarrow>
   fold (\<lambda>i t. t[start + i := src ! i]) [0..<n] t = take start t @ take n src @ drop (start + n) t"
proof (induction n)
  case 0 then show ?case by simp
next
  case (Suc n)
  let ?t' = "take start t @ take n src @ drop (start + n) t"
  have ih: "fold (\<lambda>i t. t[start + i := src ! i]) [0..<n] t = ?t'" using Suc by simp
  have "?t'[start + n := src ! n] = take start t @ take (Suc n) src @ drop (start + Suc n) t"
    using Suc.prems
    by (simp add: list_update_append take_Suc_conv_app_nth min_def upd_conv_take_nth_drop Cons_nth_drop_Suc[symmetric] drop_Suc)
  then show ?case using ih by simp
qed

lemma write_bytes_eq:
  "n \<le> length src \<Longrightarrow> start + n \<le> length t \<Longrightarrow>
   write_bytes t start src n = take start t @ take n src @ drop (start + n) t"
  unfolding write_bytes_def by (rule write_bytes_step)

lemma readUIntBE_3: "readUIntBE [a, b, c] 3 = unat a * 65536 + unat b * 256 + unat c"
  by (simp add: readUIntBE_def)

lemma unat_of_nat_byte: "n < 256 \<Longrightarrow> unat (word_of_nat n :: byte) = n"
proof -
  assume "n < 256"
  have "unat (word_of_nat n :: byte) = n mod 2 ^ LENGTH(8)" by (rule unat_of_nat)
  then show ?thesis using \<open>n < 256\<close> by simp
qed

lemma length_numberToCounter: "length (numberToCounter n) = 3"
  by (simp add: numberToCounter_def)

lemma isInteger_of_nat: "isInteger (of_nat n)"
  by (simp add: isInteger_def)

lemma split3:
  "(n::nat) = (n div 65536) * 65536 + (n div 256 mod 256) * 256 + n mod 256"
proof -
  define q where "q = n div 256"
  have a: "n = q * 256 + n mod 256" by (simp add: q_def)
  have c: "q div 256 = n div 65536" by (simp add: q_def div_mult2_eq[symmetric])
  have b: "q = (n div 65536) * 256 + q mod 256" using c div_mult_mod_eq[of q 256] by simp
  have "n = ((n div 65536) * 256 + q mod 256) * 256 + n mod 256"
    using a b by metis
  then show ?thesis by (simp add: q_def algebra_simps)
qed

lemma readUIntBE_numberToCounter:
  assumes "n \<le> 16777215"
  shows "readUIntBE (numberToCounter n) 3 = n"
proof -
  have a: "n div 65536 < 256" using assms by simp
  have u1: "unat (word_of_nat (n div 65536 mod 256) :: byte) = n div 65536"
    using a by (simp only: unat_of_nat_byte mod_less)
  have u2: "unat (word_of_nat (n div 256 mod 256) :: byte) = n div 256 mod 256"
    by (rule unat_of_nat_byte) simp
  have u3: "unat (word_of_nat (n mod 256) :: byte) = n mod 256"
    by (rule unat_of_nat_byte) simp
  show ?thesis
    unfolding numberToCounter_def readUIntBE_3 u1 u2 u3 using split3[of n] by simp
qed

lemma counterToNumber_numberToCounter:
  "n \<le> 16777215 \<Longrightarrow> counterToNumber (numberToCounter n) = n"
  by (simp add: counterToNumber_def length_numberToCounter readUIntBE_numberToCounter)

lemma rat_of_nat_le: "((of_nat n :: rat) > 16777215) = (n > 16777215)"
proof -
  have "(16777215 :: rat) = of_nat 16777215" by simp
  then show ?thesis by (simp only: of_nat_less_iff)
qed

lemma validateAndConvertCounter_nat:
  "n \<le> 16777215 \<Longrightarrow> validateAndConvertCounter cls (JNum (of_nat n)) = Inr (numberToCounter n)"
  unfolding validateAndConvertCounter_def
  by (simp add: isInteger_of_nat rat_of_nat_le del: of_nat_numeral)

lemma validateAndConvertUID_hex:
  "length u = 14 \<Longrightarrow> is_hex_string u \<Longrightarrow> validateAndConvertUID cls (JStr u) = Inr (fromHex u)"
  by (simp add: validateAndConvertUID_def)

lemma pd16: "(replicate 16 (0::byte))[0 := x] = x # replicate 15 0"
proof -
  have "(16::nat) = Suc 15" by simp
  then have "replicate 16 (0::byte) = 0 # replicate 15 0" by (simp only: replicate_Suc)
  then show ?thesis by simp
qed

lemma predefined_cases:
  "profiles pn = Some p \<Longrightarrow>
   p = profile_uidOnly \<or> p = profile_counterOnly \<or> p = profile_uidCounter \<or> p = profile_full"
  by (auto simp: profiles_def split: if_splits)

lemma buildPiccData_predefined:
  assumes "profiles pn = Some p" "length u = 7" "length c = 3"
  shows "buildPiccData cls u c p = Inr (picc_block p u c)"
proof -
  have a: "buildPiccData cls u c profile_uidOnly = Inr (picc_block profile_uidOnly u c)"
    using assms(2,3)
    by (simp add: buildPiccData_def profile_uidOnly_def or_default_def Let_def write_bytes_eq pd16
        picc_block_def)
  have b: "buildPiccData cls u c profile_counterOnly = Inr (picc_block profile_counterOnly u c)"
    using assms(2,3)
    by (simp add: buildPiccData_def profile_counterOnly_def or_default_def Let_def write_bytes_eq pd16
        picc_block_def)
  have c: "buildPiccData cls u c profile_uidCounter = Inr (picc_block profile_uidCounter u c)"
    using assms(2,3)
    by (simp add: buildPiccData_def profile_uidCounter_def or_default_def Let_def write_bytes_eq pd16
        picc_block_def)
  have d: "buildPiccData cls u c profile_full = Inr (picc_block profile_full u c)"
    using assms(2,3)
    by (simp add: buildPiccData_def profile_full_def or_default_def Let_def write_bytes_eq pd16
        picc_block_def)
  show ?thesis using predefined_cases[OF assms(1)] a b c d by blast
qed

lemma length_picc_block:
  assumes "profiles pn = Some p" "length u = 7" "length c = 3"
  shows "length (picc_block p u c) = 16"
  using predefined_cases[OF assms(1)] assms(2,3)
  by (auto simp: picc_block_def profile_uidOnly_def profile_counterOnly_def
      profile_uidCounter_def profile_full_def)

lemma extractPiccData_predefined:
  assumes "profiles pn = Some p" "length u = 7" "length c = 3"
  shows "\<exists>info. extractPiccData (picc_block p u c) (Some p) = Inr info
           \<and> dataTag info = Some 0xC7
           \<and> info_uid info = (if includeUID p then Some u else None)
           \<and> readCounterInt info = (if includeCounter p then Some (readUIntBE c 3) else None)"
proof -
  note defs = extractPiccData_def picc_block_def Let_def opt_add_def opt_ge_len_def slice_def
    opt_gt_def
  have a: "?thesis" if "p = profile_uidOnly"
    using that assms(2,3) by (simp add: defs profile_uidOnly_def)
  have b: "?thesis" if "p = profile_counterOnly"
    using that assms(2,3) by (simp add: defs profile_counterOnly_def)
  have c: "?thesis" if "p = profile_uidCounter"
    using that assms(2,3) by (simp add: defs profile_uidCounter_def)
  have d: "?thesis" if "p = profile_full"
    using that assms(2,3) by (simp add: defs profile_full_def)
  show ?thesis using predefined_cases[OF assms(1)] a b c d by blast
qed

lemma profiles_name_nonempty: "profiles pn = Some p \<Longrightarrow> pn \<noteq> []"
  by (auto simp: profiles_def split: if_splits)

lemma resolve_predefined: "profiles pn = Some p \<Longrightarrow> resolve_profile (PName pn) = Inr (Some p)"
  using profiles_name_nonempty[of pn p] by (simp add: resolve_profile_def getProfile_def)

lemma validateOperation_encrypt_ok:
  "fd = JNull \<or> includeFileData p \<Longrightarrow>
   validateOperationWithProfile ''encrypt'' (Some p)
     (JObj [(''uid'', JBuf ub), (''counter'', JBuf cb), (''fileData'', fd)]) = Inr True"
  by (auto simp: validateOperationWithProfile_def Let_def)

lemma encrypt_plain:
  assumes ok: "prims_ok P"
    and mk: "length mk = 32" "is_hex_string mk"
    and u: "length u = 14" "is_hex_string u"
    and n: "n \<le> 16777215"
    and pn: "profiles pn = Some p"
    and m: "m \<in> set [''ntag424Official'', ''hkdf'', ''pbkdf2'', ''simpleHash'']"
  shows "\<exists>r ks. encrypt P (JStr mk) (JStr u) (JNum (of_nat n)) JNull
             \<lparr>opt_keyDerivationMethod = Some m, opt_sdmProfile = PName pn\<rparr> = Inr r
           \<and> deriveKeys Error P (fromHex mk) zeroUID zeroCounter m = Inr ks
           \<and> length (encKey ks) = 16 \<and> length (macKey ks) = 16
           \<and> picc r = hexU (cbc_enc (aes_block_encrypt P (encKey ks)) zero_iv
                 (pkcs7_pad (picc_block p (fromHex u) (numberToCounter n))))
           \<and> cmac r = hexU (take 8 (aesCmac P (macKey ks)
                 (cbc_enc (aes_block_encrypt P (encKey ks)) zero_iv
                    (pkcs7_pad (picc_block p (fromHex u) (numberToCounter n))))))
           \<and> enc r = None"
proof -
  have mkne: "mk \<noteq> []" using mk(1) by auto
  have mkb: "length (fromHex mk) = 16" "buf_copy (fromHex mk) (replicate 16 0) 0 = fromHex mk"
    using masterKey_bytes[OF mk(2) mk(1)] by simp_all
  obtain ks where ks: "deriveKeys EncryptionError P (fromHex mk) zeroUID zeroCounter m = Inr ks"
      "length (encKey ks) = 16" "length (macKey ks) = 16"
    using deriveKeys_ok[OF ok mkb(1) m] by blast
  have lu: "length (fromHex u) = 7"
    using length_fromHex[OF is_hex_string_all[OF u(2)]] u(1) by simp
  have b: "buildPiccData EncryptionError (fromHex u) (numberToCounter n) p
             = Inr (picc_block p (fromHex u) (numberToCounter n))"
    by (rule buildPiccData_predefined[OF pn lu length_numberToCounter])
  have v: "validateOperationWithProfile ''encrypt'' (Some p)
     (JObj [(''uid'', JBuf (fromHex u)), (''counter'', JBuf (numberToCounter n)), (''fileData'', JNull)]) = Inr True"
    by (rule validateOperation_encrypt_ok) simp
  have e: "encrypt P (JStr mk) (JStr u) (JNum (of_nat n)) JNull
             \<lparr>opt_keyDerivationMethod = Some m, opt_sdmProfile = PName pn\<rparr>
      = Inr \<lparr>od_uid = hexU (fromHex u),
                  od_scanCount = counterToNumber (numberToCounter n),
                  od_masterKey = ''[REDACTED]'',
                  od_keyDerivationMethod = m,
                  od_sdmProfile = Some (name_or_custom p),
                  od_fileData = None,
                  picc = hexU (cbc_enc (aes_block_encrypt P (encKey ks)) zero_iv
                 (pkcs7_pad (picc_block p (fromHex u) (numberToCounter n)))),
                  cmac = hexU (take 8 (aesCmac P (macKey ks)
                 (cbc_enc (aes_block_encrypt P (encKey ks)) zero_iv
                    (pkcs7_pad (picc_block p (fromHex u) (numberToCounter n)))))),
                  enc = None,
                  md_profileUsed = Some (name_or_custom p),
                  md_hasFileData = Some False\<rparr>"
    unfolding encrypt_def
    by (simp add: Let_def mk mkne mkb validateAndConvertUID_hex[OF u] validateAndConvertCounter_nat[OF n]
        resolve_predefined[OF pn] v b ks AES_cbcEncrypt_ok CMAC_calculate_def
        del: of_nat_numeral)
  show ?thesis
    using e deriveKeys_cls[OF ks(1), of Error] ks(2,3) by simp
qed

section \<open>The profile registry\<close>

lemma getProfile_Inl:
  "getProfile v = Inl e \<Longrightarrow>
   \<exists>s. v = JStr s \<and> s \<noteq> [] \<and> s \<notin> set getAvailableProfiles
       \<and> e = JSError SDMProfileError (''Unknown SDM profile: '' @ s)"
proof -
  assume a: "getProfile v = Inl e"
  then have t: "truthy v" "typeof v = ''string''"
    by (auto simp: getProfile_def split: if_splits)
  then obtain s where s: "v = JStr s" by (cases v) auto
  have ne: "s \<noteq> []" using t s by simp
  have p: "profiles s = None" using a s ne
    by (auto simp: getProfile_def split: if_splits option.splits)
  then have na: "s \<notin> set getAvailableProfiles"
    by (auto simp: profiles_def getAvailableProfiles_def split: if_splits)
  have "e = JSError SDMProfileError (''Unknown SDM profile: '' @ s)"
    using a s ne p by (auto simp: getProfile_def split: if_splits)
  then show ?thesis using s ne na by blast
qed

text \<open>
  Claim C10. \<open>SDMConfig.getProfile\<close> called with \<open>null\<close>, \<open>undefined\<close>, the
  empty string or a value that is not a string returns the default \<open>uidCounter\<close>
  profile; it throws only for a non-empty string that names no predefined profile,
  and what it throws then is the \<open>SDMProfileError\<close> "Unknown SDM profile".
\<close>

theorem getProfile_default_or_unknown:
  "(v = JNull \<or> v = JUndefined \<or> v = JStr [] \<or> typeof v \<noteq> ''string''
      \<longrightarrow> getProfile v = Inr profile_uidCounter)
   \<and> (\<forall>e. getProfile v = Inl e \<longrightarrow>
          (\<exists>s. v = JStr s \<and> s \<noteq> [] \<and> s \<notin> set getAvailableProfiles
             \<and> e = JSError SDMProfileError (''Unknown SDM profile: '' @ s)))"
proof -
  have "v = JNull \<or> v = JUndefined \<or> v = JStr [] \<or> typeof v \<noteq> ''string''
      \<longrightarrow> getProfile v = Inr profile_uidCounter"
    by (auto simp: getProfile_def)
  then show ?thesis using getProfile_Inl by blast
qed

theorem getProfile_default_or_unknown_witness:
  "getProfile JNull = Inr profile_uidCounter
   \<and> getProfile (JNum 7) = Inr profile_uidCounter
   \<and> getProfile (JStr ''nope'') = Inl (JSError SDMProfileError ''Unknown SDM profile: nope'')
   \<and> ''nope'' \<notin> set getAvailableProfiles"
proof -
  have a: "getProfile JNull = Inr profile_uidCounter"
    using getProfile_default_or_unknown[of JNull] by simp
  have b: "getProfile (JNum 7) = Inr profile_uidCounter"
    using getProfile_default_or_unknown[of "JNum 7"] by simp
  have c: "getProfile (JStr ''nope'') = Inl (JSError SDMProfileError ''Unknown SDM profile: nope'')"
    by (simp add: getProfile_def profiles_def object_prototype_keys_def)
  have d: "''nope'' \<notin> set getAvailableProfiles"
    using getProfile_default_or_unknown[of "JStr ''nope''"] c by simp
  show ?thesis using a b c d by simp
qed

end
